theory Spec2Isabelle
  imports Main
begin

section \<open>Data model (prisma/generated/schema.prisma)\<close>

text \<open>
  Only the models the authentication service reads or writes are embedded: User (with the
  value of its required 1:1 primary Email row held inline), Session and Code. Timestamps are
  milliseconds since the epoch, as \<^verbatim>\<open>Date.getTime()\<close> and \<^verbatim>\<open>Date.now()\<close> give them. A table is
  the list of its rows in storage order; a row that is created goes to the end.
\<close>

datatype TypeCode = VERIFICATION | RESETPASSWORD | REACTIVE | RECOVERY

datatype Gender = MALE | FEMALE | OTHER

text \<open>
  A User row without its password field is what \<^verbatim>\<open>const { hashedPassword, ...userWithoutPassword }\<close>
  leaves; the full row extends it, so that \<open>UserWithoutPassword.truncate\<close> is that destructuring.
\<close>

record UserWithoutPassword =
  user_id :: string
  profileId :: string
  primaryEmail :: string
  displayName :: string
  birthday :: int
  gender :: Gender

record User = UserWithoutPassword +
  hashedPassword :: string

record Session =
  session_id :: string
  session_userId :: string
  session_createdAt :: int
  lastLoginAt :: "int option"
  refreshTokenHashed :: "string option"
  deviceName :: "string option"
  userAgent :: "string option"
  ipAddress :: "string option"
  revoked :: bool

record Code =
  tokens :: "string list"
  expiresAt :: "int option"
  code_type :: TypeCode
  code_userId :: string
  code_createdAt :: int

text \<open>Calls received by the email collaborator (EmailService), in the order they are made.\<close>

datatype mail =
    ResetPasswordAccount string string
  | NotificationResetPassword string
  | DetectOtherDevice string string string string

text \<open>
  The state the service acts on: the three tables, the calls \<^verbatim>\<open>RedisService.set\<close> has received
  (key, value and expiry argument, oldest first), and the mails handed to EmailService.
\<close>

record world =
  users :: "User list"
  sessions :: "Session list"
  codes :: "Code list"
  redis_sets :: "(string \<times> string \<times> nat) list"
  outbox :: "mail list"

text \<open>
  What an operation throws. The four NestJS exceptions carry their message; \<open>PrismaError\<close>
  is a request the store rejects (a missing record, a violated unique constraint, a lost
  connection) and \<open>OtherError\<close> any other exception of a library.
\<close>

datatype error =
    NotFoundException string
  | UnauthorizedException string
  | ConflictException string
  | ForbiddenException string
  | PrismaError
  | OtherError

fun is_Unauthorized :: "error \<Rightarrow> bool" where
  "is_Unauthorized (UnauthorizedException m) = True"
| "is_Unauthorized e = False"

fun is_NotFound :: "error \<Rightarrow> bool" where
  "is_NotFound (NotFoundException m) = True"
| "is_NotFound e = False"

fun is_Conflict :: "error \<Rightarrow> bool" where
  "is_Conflict (ConflictException m) = True"
| "is_Conflict e = False"

text \<open>
  The libraries the service calls: argon2 (\<^verbatim>\<open>hash\<close> with the fixed options of
  \<^verbatim>\<open>hashing\<close>, and \<^verbatim>\<open>verify(hash, plain)\<close>), ua-parser-js (the browser and OS names, absent
  when the User-Agent is not recognised) and the JWT verifier.
\<close>

record jwt_payload =
  sub :: "string option"

record ext =
  argon2_hash :: "string \<Rightarrow> string"
  argon2_verify :: "string \<Rightarrow> string \<Rightarrow> bool"
  ua_browser_name :: "string \<Rightarrow> string option"
  ua_os_name :: "string \<Rightarrow> string option"
  jwt_verifyAsync :: "string \<Rightarrow> string \<Rightarrow> jwt_payload option"

definition MAXINUM_AVAILABLE_TIME :: int where
  "MAXINUM_AVAILABLE_TIME = 5 * 60000"

definition MIN_TIME_TO_REQUEST :: int where
  "MIN_TIME_TO_REQUEST = 60000"

definition hashing :: "ext \<Rightarrow> string \<Rightarrow> string" where
  "hashing x s = argon2_hash x s"

section \<open>Store operations (Prisma client)\<close>

text \<open>\<^verbatim>\<open>code.findFirst({ where: { tokens: { has: code } } })\<close>: no user and no type in the filter.\<close>

definition code_findFirst_has :: "string \<Rightarrow> Code list \<Rightarrow> Code option" where
  "code_findFirst_has code cs = find (\<lambda>c. code \<in> set (tokens c)) cs"

definition code_exists :: "string \<Rightarrow> TypeCode \<Rightarrow> Code list \<Rightarrow> bool" where
  "code_exists uid ty cs = list_ex (\<lambda>c. code_userId c = uid \<and> code_type c = ty) cs"

definition user_exists :: "string \<Rightarrow> User list \<Rightarrow> bool" where
  "user_exists uid us = list_ex (\<lambda>u. user_id u = uid) us"

definition set_hashedPassword :: "string \<Rightarrow> string \<Rightarrow> User list \<Rightarrow> User list" where
  "set_hashedPassword uid h us =
     map (\<lambda>u. if user_id u = uid then u\<lparr>hashedPassword := h\<rparr> else u) us"

text \<open>
  \<^verbatim>\<open>user.update({ where: { id }, data: { hashedPassword, code: { delete: { id: { type, userId } } } } })\<close>.
  The nested delete is part of the same write: when the user or the Code row to delete
  does not exist, Prisma rejects the whole update and nothing is written.
\<close>

definition user_update_hash_delete_code ::
  "string \<Rightarrow> string \<Rightarrow> TypeCode \<Rightarrow> world \<Rightarrow> world option" where
  "user_update_hash_delete_code uid h ty w =
     (if \<not> user_exists uid (users w) then None
      else if \<not> code_exists uid ty (codes w) then None
      else Some (w\<lparr>users := set_hashedPassword uid h (users w),
                   codes := filter (\<lambda>c. \<not> (code_userId c = uid \<and> code_type c = ty)) (codes w)\<rparr>))"

text \<open>
  \<^verbatim>\<open>code.upsert({ where: { id: { type, userId } }, update: { tokens, expiresAt }, create: ... })\<close>:
  an existing row keeps its \<^verbatim>\<open>createdAt\<close>; a created one gets the current time.
\<close>

definition code_upsert :: "string \<Rightarrow> TypeCode \<Rightarrow> string list \<Rightarrow> int \<Rightarrow> int \<Rightarrow> Code list \<Rightarrow> Code list" where
  "code_upsert uid ty toks ex now cs =
     (if code_exists uid ty cs
      then map (\<lambda>c. if code_userId c = uid \<and> code_type c = ty
                     then c\<lparr>tokens := toks, expiresAt := Some ex\<rparr> else c) cs
      else cs @ [\<lparr>tokens = toks, expiresAt = Some ex, code_type = ty,
                  code_userId = uid, code_createdAt = now\<rparr>])"

text \<open>
  Modelled from the spec: \<^verbatim>\<open>UsersService.findPrimaryUserByEmail\<close> is not among the sources. The
  spec has it decide whether an email "is already the primary email of an existing account",
  so it returns the first user whose primary email is the given one.
\<close>

definition findPrimaryUserByEmail :: "string \<Rightarrow> User list \<Rightarrow> User option" where
  "findPrimaryUserByEmail email us = find (\<lambda>u. primaryEmail u = email) us"

section \<open>Password recovery (auth.service.ts)\<close>

text \<open>
  \<open>token\<close> is the value \<^verbatim>\<open>TokenService.generateCode()\<close> returned, already as a string, and
  \<open>now\<close> the clock at the call.
\<close>

definition recoveryAccount :: "string \<Rightarrow> int \<Rightarrow> string \<Rightarrow> world \<Rightarrow> (error + string) \<times> world" where
  "recoveryAccount token now email w =
     (case findPrimaryUserByEmail email (users w) of
        None \<Rightarrow> (Inl (NotFoundException ''User is not found''), w)
      | Some user \<Rightarrow>
          (let w1 = w\<lparr>codes := code_upsert (user_id user) RECOVERY [token]
                                    (now + MAXINUM_AVAILABLE_TIME) now (codes w)\<rparr>;
               w2 = w1\<lparr>outbox := outbox w1 @ [ResetPasswordAccount email token]\<rparr>
           in (Inr ''Send recovery email successful'', w2)))"

text \<open>
  The two guards of the source are kept in their order. With no row found the first guard
  (\<^verbatim>\<open>exitingUser && ...\<close>) is false and the second (\<^verbatim>\<open>!exitingUser?.tokens.includes(code)\<close>) true.
  Both reads of \<^verbatim>\<open>Date.now()\<close> are the one instant \<open>now\<close>.
\<close>

definition confirmRecoveryAccount ::
  "ext \<Rightarrow> int \<Rightarrow> string \<Rightarrow> string \<Rightarrow> string \<Rightarrow> world \<Rightarrow> (error + string) \<times> world" where
  "confirmRecoveryAccount x now email code newPassword w =
     (case code_findFirst_has code (codes w) of
        None \<Rightarrow> (Inl (UnauthorizedException ''Code is not matched or expired''), w)
      | Some exitingUser \<Rightarrow>
          if code_createdAt exitingUser + MIN_TIME_TO_REQUEST > now
          then (Inl (ConflictException ''Please wait 1 minutes before requesting again''), w)
          else if code \<notin> set (tokens exitingUser)
                  \<or> code_createdAt exitingUser + MAXINUM_AVAILABLE_TIME < now
          then (Inl (UnauthorizedException ''Code is not matched or expired''), w)
          else (case user_update_hash_delete_code (code_userId exitingUser)
                       (hashing x newPassword) VERIFICATION w of
                  None \<Rightarrow> (Inl PrismaError, w)
                | Some w1 \<Rightarrow>
                    (Inr ''Send notification recovery email successful'',
                     w1\<lparr>outbox := outbox w1 @ [NotificationResetPassword email]\<rparr>)))"

section \<open>Requests and JavaScript truthiness\<close>

text \<open>
  The parts of the Express request the service reads: the \<^verbatim>\<open>x-forwarded-for\<close> and
  \<^verbatim>\<open>user-agent\<close> headers, the socket's remote address, the \<^verbatim>\<open>session_id\<close> cookie and the id
  of the authenticated user (\<^verbatim>\<open>req.user?.id\<close>); \<open>None\<close> is \<^verbatim>\<open>undefined\<close>. Cookies written to the
  response are not part of the model.
\<close>

record request =
  x_forwarded_for :: "string option"
  remoteAddress :: "string option"
  user_agent :: "string option"
  cookie_session_id :: "string option"
  req_user_id :: "string option"

text \<open>A string is falsy when it is undefined or empty; \<open>or_else v d\<close> is \<^verbatim>\<open>v || d\<close>.\<close>

definition truthy :: "string option \<Rightarrow> bool" where
  "truthy v = (case v of None \<Rightarrow> False | Some s \<Rightarrow> s \<noteq> [])"

definition or_else :: "string option \<Rightarrow> string \<Rightarrow> string" where
  "or_else v d = (case v of None \<Rightarrow> d | Some s \<Rightarrow> if s = [] then d else s)"

definition or_opt :: "string option \<Rightarrow> string option \<Rightarrow> string option" where
  "or_opt v d = (if truthy v then v else d)"

definition extractIp :: "request \<Rightarrow> string" where
  "extractIp req =
     or_else (map_option (takeWhile (\<lambda>c. c \<noteq> CHR '','')) (x_forwarded_for req))
       (or_else (remoteAddress req) [])"

definition getDeviceName :: "ext \<Rightarrow> string \<Rightarrow> string" where
  "getDeviceName x ua =
     (let browser = or_else (ua_browser_name x ua) ''Unknown browser'';
          os = or_else (ua_os_name x ua) ''Unknown OS''
      in browser @ '' on '' @ os)"

section \<open>Sessions\<close>

text \<open>The row with the greatest \<^verbatim>\<open>createdAt\<close> (\<^verbatim>\<open>orderBy: { createdAt: 'desc' }\<close>), if any.\<close>

fun latest :: "Session list \<Rightarrow> Session option" where
  "latest [] = None"
| "latest (s # ss) =
     (case latest ss of
        None \<Rightarrow> Some s
      | Some t \<Rightarrow> if session_createdAt s < session_createdAt t then Some t else Some s)"

text \<open>
  \<^verbatim>\<open>session.findFirst({ where: { userId, deviceName, ipAddress: ip }, orderBy: ... })\<close>: the
  result is a session already stored for this user, device and address, or null.
\<close>

definition detectDevice :: "string \<Rightarrow> string \<Rightarrow> string \<Rightarrow> Session list \<Rightarrow> Session option" where
  "detectDevice userId ip dn ss =
     latest (filter (\<lambda>s. session_userId s = userId \<and> deviceName s = Some dn
                          \<and> ipAddress s = Some ip) ss)"

text \<open>
  \<^verbatim>\<open>session.findFirst({ where: { id: sessionId } })\<close>. Prisma drops a filter whose value is
  \<^verbatim>\<open>undefined\<close>, so with no \<open>sessionId\<close> the first row of the table is returned, whoever owns it.
\<close>

definition session_findFirst_id :: "string option \<Rightarrow> Session list \<Rightarrow> Session option" where
  "session_findFirst_id sessionId ss =
     (case sessionId of
        None \<Rightarrow> (case ss of [] \<Rightarrow> None | s # rest \<Rightarrow> Some s)
      | Some i \<Rightarrow> find (\<lambda>s. session_id s = i) ss)"

text \<open>
  \<^verbatim>\<open>session.updateMany({ where: { id: sid, userId }, data: { refreshTokenHashed: null, revoked: true } })\<close>,
  the \<open>userId\<close> filter again dropped when it is \<^verbatim>\<open>undefined\<close>.
\<close>

definition session_updateMany_revoke :: "string \<Rightarrow> string option \<Rightarrow> Session list \<Rightarrow> Session list" where
  "session_updateMany_revoke sid userId ss =
     map (\<lambda>s. if session_id s = sid \<and> (case userId of None \<Rightarrow> True | Some u \<Rightarrow> session_userId s = u)
               then s\<lparr>refreshTokenHashed := None, revoked := True\<rparr> else s) ss"

definition logout :: "request \<Rightarrow> string option \<Rightarrow> world \<Rightarrow> (error + string) \<times> world" where
  "logout req sessionId w =
     (let session = session_findFirst_id sessionId (sessions w);
          sid = or_opt sessionId (cookie_session_id req)
      in case sid of
           None \<Rightarrow> (Inl (NotFoundException ''Session ID is required for logout''), w)
         | Some i \<Rightarrow>
             if i = [] then (Inl (NotFoundException ''Session ID is required for logout''), w)
             else (Inr ''Logout successful'',
                   w\<lparr>sessions := session_updateMany_revoke i (map_option session_userId session)
                                    (sessions w)\<rparr>))"

text \<open>
  Modelled from the spec: \<^verbatim>\<open>TokenService.storeRefreshToken\<close> is not among the sources. The spec:
  it "hashes the refresh token before persistence; if an existing session id is supplied, the
  row is reused/updated in place (device/IP/timestamps refreshed); otherwise a new Session row
  is created. Returns the session row." A created row takes the schema's defaults
  (\<^verbatim>\<open>revoked = false\<close>, \<^verbatim>\<open>createdAt\<close> and \<^verbatim>\<open>lastLoginAt\<close> now) and the store rejects it when its id
  or its \<^verbatim>\<open>userId\<close> (\<^verbatim>\<open>@unique\<close> in the schema) is already taken. \<open>newId\<close> is the generated uuid.
\<close>

record session_metadata =
  meta_deviceName :: string
  meta_ipAddress :: string
  meta_userAgent :: string

definition storeRefreshToken ::
  "ext \<Rightarrow> string \<Rightarrow> int \<Rightarrow> string \<Rightarrow> string \<Rightarrow> string option \<Rightarrow> session_metadata \<Rightarrow> Session list
     \<Rightarrow> (Session \<times> Session list) option" where
  "storeRefreshToken x newId now userId rawRefreshToken existingSessionId meta ss =
     (case (case existingSessionId of None \<Rightarrow> None
            | Some i \<Rightarrow> find (\<lambda>s. session_id s = i) ss) of
        Some old \<Rightarrow>
          (let new = old\<lparr>refreshTokenHashed := Some (hashing x rawRefreshToken),
                         deviceName := Some (meta_deviceName meta),
                         ipAddress := Some (meta_ipAddress meta),
                         userAgent := Some (meta_userAgent meta),
                         lastLoginAt := Some now\<rparr>
           in Some (new, map (\<lambda>s. if session_id s = session_id old then new else s) ss))
      | None \<Rightarrow>
          (let new = \<lparr>session_id = newId, session_userId = userId, session_createdAt = now,
                      lastLoginAt = Some now,
                      refreshTokenHashed = Some (hashing x rawRefreshToken),
                      deviceName = Some (meta_deviceName meta),
                      userAgent = Some (meta_userAgent meta),
                      ipAddress = Some (meta_ipAddress meta), revoked = False\<rparr>
           in if list_ex (\<lambda>s. session_id s = newId \<or> session_userId s = userId) ss then None
              else Some (new, ss @ [new])))"

text \<open>
  \<open>toks\<close> is the pair \<^verbatim>\<open>TokenService.generateTokens\<close> returned (the access and the refresh
  token); the user row read at the start of \<^verbatim>\<open>createSession\<close> only feeds that call.
\<close>

record tokens_pair =
  tok_accessToken :: string
  tok_refreshToken :: string

definition createSession ::
  "ext \<Rightarrow> string \<Rightarrow> int \<Rightarrow> tokens_pair \<Rightarrow> string \<Rightarrow> request \<Rightarrow> world
     \<Rightarrow> (error + tokens_pair \<times> Session) \<times> world" where
  "createSession x newId now toks userId req w =
     (let ipAddress = extractIp req;
          userAgent = or_else (user_agent req) ''Unknown'';
          deviceName = getDeviceName x userAgent
      in case storeRefreshToken x newId now userId (tok_refreshToken toks) (cookie_session_id req)
                \<lparr>meta_deviceName = deviceName, meta_ipAddress = ipAddress,
                 meta_userAgent = userAgent\<rparr> (sessions w) of
           None \<Rightarrow> (Inl PrismaError, w)
         | Some (session, ss) \<Rightarrow> (Inr (toks, session), w\<lparr>sessions := ss\<rparr>))"

section \<open>Login\<close>

record login_data =
  login_email :: string
  login_password :: string

text \<open>
  \<open>isNew\<close> is what \<open>detectDevice\<close> returned: a stored session or null. The notification is sent
  when it is truthy.
\<close>

definition login ::
  "ext \<Rightarrow> string \<Rightarrow> int \<Rightarrow> tokens_pair \<Rightarrow> login_data \<Rightarrow> request \<Rightarrow> world
     \<Rightarrow> (error + UserWithoutPassword) \<times> world" where
  "login x newId now toks data req w =
     (case find (\<lambda>u. primaryEmail u = login_email data) (users w) of
        None \<Rightarrow> (Inl (NotFoundException ''User not found''), w)
      | Some user \<Rightarrow>
          if \<not> argon2_verify x (hashedPassword user) (login_password data)
          then (Inl (UnauthorizedException ''Password is not matched''), w)
          else
            (let ip = extractIp req;
                 userAgent = or_else (user_agent req) ''Unknown'';
                 deviceName = getDeviceName x userAgent;
                 isNew = detectDevice (user_id user) ip deviceName (sessions w);
                 w1 = (if isNew \<noteq> None
                       then w\<lparr>outbox := outbox w @
                                [DetectOtherDevice (primaryEmail user) ip userAgent deviceName]\<rparr>
                       else w)
             in case createSession x newId now toks (user_id user) req w1 of
                  (Inl e, w2) \<Rightarrow> (Inl e, w2)
                | (Inr session, w2) \<Rightarrow> (Inr (UserWithoutPassword.truncate user), w2)))"

section \<open>Token validation\<close>

text \<open>
  The body of the \<^verbatim>\<open>try\<close> block. \<open>secret\<close> is the configured \<^verbatim>\<open>JWT_SECRET\<close> (\<^verbatim>\<open>getOrThrow\<close> throws
  without it), a token the verifier refuses makes \<^verbatim>\<open>verifyAsync\<close> throw, and \<open>store_rejects\<close>
  says that the store fails the queries of this call. \<^verbatim>\<open>findUnique\<close> with an undefined id is
  rejected by Prisma as well.
\<close>

definition validate_body :: "ext \<Rightarrow> string option \<Rightarrow> bool \<Rightarrow> string \<Rightarrow> world \<Rightarrow> error + User" where
  "validate_body x secret store_rejects accessToken w =
     (case secret of
        None \<Rightarrow> Inl OtherError
      | Some k \<Rightarrow>
          (case jwt_verifyAsync x accessToken k of
             None \<Rightarrow> Inl OtherError
           | Some payload \<Rightarrow>
               if store_rejects then Inl PrismaError
               else (case sub payload of
                       None \<Rightarrow> Inl PrismaError
                     | Some uid \<Rightarrow>
                         (case find (\<lambda>u. user_id u = uid) (users w) of
                            None \<Rightarrow> Inl (UnauthorizedException ''User not found'')
                          | Some user \<Rightarrow>
                              (case find (\<lambda>s. session_userId s = user_id user \<and> \<not> revoked s)
                                      (sessions w) of
                                 None \<Rightarrow> Inl (UnauthorizedException ''User session is revoked'')
                               | Some activeSession \<Rightarrow> Inr user)))))"

text \<open>The \<^verbatim>\<open>catch\<close>: an UnauthorizedException is rethrown, anything else replaced by one.\<close>

definition validate :: "ext \<Rightarrow> string option \<Rightarrow> bool \<Rightarrow> string \<Rightarrow> world \<Rightarrow> error + User" where
  "validate x secret store_rejects accessToken w =
     (case validate_body x secret store_rejects accessToken w of
        Inr user \<Rightarrow> Inr user
      | Inl e \<Rightarrow> if is_Unauthorized e then Inl e
                 else Inl (UnauthorizedException ''Invalid or expired access token''))"

section \<open>Registration and password change\<close>

record RegisterUser =
  reg_email :: string
  reg_password :: string
  reg_displayName :: string
  reg_birthday :: int
  reg_gender :: Gender

text \<open>
  \<^verbatim>\<open>user.create\<close>: the row goes to the end of the table, unless its id or its \<^verbatim>\<open>profileId\<close>
  (both unique in the schema) is taken.
\<close>

definition user_create :: "User \<Rightarrow> User list \<Rightarrow> User list option" where
  "user_create u us =
     (if list_ex (\<lambda>v. user_id v = user_id u \<or> profileId v = profileId u) us then None
      else Some (us @ [u]))"

text \<open>
  \<open>newId\<close> is the uuid the store generates for the row and \<open>snowflake\<close> the value of
  \<^verbatim>\<open>new Snowflake().generate()\<close>. The result is the \<^verbatim>\<open>data\<close> field of the returned object.
\<close>

definition registerUser ::
  "ext \<Rightarrow> string \<Rightarrow> string \<Rightarrow> RegisterUser \<Rightarrow> world \<Rightarrow> (error + User) \<times> world" where
  "registerUser x newId snowflake body w =
     (case findPrimaryUserByEmail (reg_email body) (users w) of
        Some user \<Rightarrow> (Inl (ConflictException ''This email has been registered''), w)
      | None \<Rightarrow>
          (let hashedPassword = hashing x (reg_password body);
               newUser = \<lparr>user_id = newId, profileId = snowflake,
                          primaryEmail = reg_email body,
                          displayName = reg_displayName body,
                          birthday = reg_birthday body,
                          gender = reg_gender body,
                          hashedPassword = hashedPassword\<rparr>
           in case user_create newUser (users w) of
                None \<Rightarrow> (Inl PrismaError, w)
              | Some us \<Rightarrow> (Inr newUser, w\<lparr>users := us\<rparr>)))"

record ChangePasswordDto =
  dto_oldPassword :: string
  dto_newPassword :: string

definition MAX_TIME_SAVE :: nat where
  "MAX_TIME_SAVE = 60 * 60 * 24 * 30"

text \<open>
  \<^verbatim>\<open>RedisService.set(key, value, ttl)\<close> is not among the sources, so the model keeps the call
  itself: what the service hands over, and when.
\<close>

definition redis_set :: "string \<Rightarrow> string \<Rightarrow> nat \<Rightarrow> world \<Rightarrow> world" where
  "redis_set k v ttl w = w\<lparr>redis_sets := redis_sets w @ [(k, v, ttl)]\<rparr>"

definition changePassword ::
  "ext \<Rightarrow> ChangePasswordDto \<Rightarrow> request \<Rightarrow> world \<Rightarrow> (error + UserWithoutPassword) \<times> world" where
  "changePassword x data req w =
     (if \<not> truthy (req_user_id req)
      then (Inl (UnauthorizedException ''User ID is missing''), w)
      else
        (let uid = or_else (req_user_id req) [] in
         case find (\<lambda>u. user_id u = uid) (users w) of
           None \<Rightarrow> (Inl (NotFoundException ''User not found''), w)
         | Some user \<Rightarrow>
             if \<not> argon2_verify x (hashedPassword user) (dto_oldPassword data)
             then (Inl (UnauthorizedException ''Password is not matched''), w)
             else
               (let w1 = redis_set uid (dto_oldPassword data) MAX_TIME_SAVE w;
                    hashedNewPassword = hashing x (dto_newPassword data);
                    w2 = w1\<lparr>users := set_hashedPassword uid hashedNewPassword (users w1)\<rparr>
                in case find (\<lambda>u. user_id u = uid) (users w2) of
                     None \<Rightarrow> (Inl PrismaError, w2)
                   | Some newUser \<Rightarrow>
                       (Inr (UserWithoutPassword.truncate newUser),
                        w2\<lparr>outbox := outbox w2 @
                              [NotificationResetPassword (primaryEmail newUser)]\<rparr>))))"

section \<open>Sample data\<close>

text \<open>
  Stand-ins for the libraries, two accounts and a request, used to run the operations on
  concrete inputs. The sample hash prefixes the password; the sample verifier accepts a
  token \<open>jwt:<id>\<close> under the secret \<open>secret\<close>.
\<close>

definition sample_ext :: ext where
  "sample_ext =
     \<lparr>argon2_hash = (\<lambda>p. ''$argon2id$'' @ p),
      argon2_verify = (\<lambda>h p. h = ''$argon2id$'' @ p),
      ua_browser_name = (\<lambda>ua. if ua = ''Mozilla/5.0 (X11; Linux x86_64) Firefox/128.0''
                                then Some ''Firefox'' else None),
      ua_os_name = (\<lambda>ua. if ua = ''Mozilla/5.0 (X11; Linux x86_64) Firefox/128.0''
                           then Some ''Linux'' else None),
      jwt_verifyAsync = (\<lambda>t k. if k = ''secret'' \<and> take 4 t = ''jwt:''
                                then Some \<lparr>sub = Some (drop 4 t)\<rparr> else None)\<rparr>"

definition alice :: User where
  "alice = \<lparr>user_id = ''u1'', profileId = ''p1'', primaryEmail = ''a@x.com'',
            displayName = ''Alice'', birthday = 0, gender = FEMALE,
            hashedPassword = ''$argon2id$pw1''\<rparr>"

definition bob :: User where
  "bob = \<lparr>user_id = ''u2'', profileId = ''p2'', primaryEmail = ''b@x.com'',
          displayName = ''Bob'', birthday = 0, gender = MALE,
          hashedPassword = ''$argon2id$pw2''\<rparr>"

definition world0 :: world where
  "world0 = \<lparr>users = [alice, bob], sessions = [], codes = [], redis_sets = [], outbox = []\<rparr>"

definition firefox_req :: request where
  "firefox_req = \<lparr>x_forwarded_for = None, remoteAddress = Some ''10.0.0.7'',
                  user_agent = Some ''Mozilla/5.0 (X11; Linux x86_64) Firefox/128.0'',
                  cookie_session_id = None, req_user_id = None\<rparr>"

definition sample_tokens :: tokens_pair where
  "sample_tokens = \<lparr>tok_accessToken = ''jwt:u1'', tok_refreshToken = ''r1''\<rparr>"

definition alice_login :: login_data where
  "alice_login = \<lparr>login_email = ''a@x.com'', login_password = ''pw1''\<rparr>"

text \<open>Alice's session as her first login from \<open>firefox_req\<close> at time 1000 stores it.\<close>

definition alice_session :: Session where
  "alice_session =
     \<lparr>session_id = ''s1'', session_userId = ''u1'', session_createdAt = 1000,
      lastLoginAt = Some 1000, refreshTokenHashed = Some ''$argon2id$r1'',
      deviceName = Some ''Firefox on Linux'',
      userAgent = Some ''Mozilla/5.0 (X11; Linux x86_64) Firefox/128.0'',
      ipAddress = Some ''10.0.0.7'', revoked = False\<rparr>"

definition bob_session :: Session where
  "bob_session =
     \<lparr>session_id = ''s2'', session_userId = ''u2'', session_createdAt = 2000,
      lastLoginAt = Some 2000, refreshTokenHashed = Some ''$argon2id$r2'',
      deviceName = Some ''Unknown browser on Unknown OS'', userAgent = Some ''curl/8.5.0'',
      ipAddress = Some ''10.0.0.8'', revoked = False\<rparr>"

definition world_logged_in :: world where
  "world_logged_in = world0\<lparr>sessions := [alice_session]\<rparr>"

definition world_two_sessions :: world where
  "world_two_sessions = world0\<lparr>sessions := [alice_session, bob_session]\<rparr>"

text \<open>The RECOVERY row a first \<open>recoveryAccount\<close> of Alice at time 1000 creates with code 123456.\<close>

definition alice_recovery :: Code where
  "alice_recovery = \<lparr>tokens = [''123456''], expiresAt = Some 301000, code_type = RECOVERY,
                     code_userId = ''u1'', code_createdAt = 1000\<rparr>"

definition alice_verification :: Code where
  "alice_verification = \<lparr>tokens = [''777777''], expiresAt = Some 300500,
                         code_type = VERIFICATION, code_userId = ''u1'', code_createdAt = 500\<rparr>"

definition world_recovery :: world where
  "world_recovery =
     world0\<lparr>codes := [alice_recovery], outbox := [ResetPasswordAccount ''a@x.com'' ''123456'']\<rparr>"

definition world_both_codes :: world where
  "world_both_codes = world0\<lparr>codes := [alice_recovery, alice_verification]\<rparr>"

text \<open>The store after a stranger has used Alice's code with an email of their own.\<close>

definition world_hijacked :: world where
  "world_hijacked =
     world0\<lparr>users := [alice\<lparr>hashedPassword := ''$argon2id$hacked''\<rparr>, bob],
            codes := [alice_recovery],
            outbox := [NotificationResetPassword ''mallory@evil.example'']\<rparr>"

text \<open>
  Two accounts whose RECOVERY rows hold the same code: Bob's row, created at time 0, comes
  first in the table, Alice's, created at time 100000, after it.
\<close>

definition bob_recovery :: Code where
  "bob_recovery = \<lparr>tokens = [''123456''], expiresAt = Some 300000, code_type = RECOVERY,
                   code_userId = ''u2'', code_createdAt = 0\<rparr>"

definition alice_recovery_late :: Code where
  "alice_recovery_late = \<lparr>tokens = [''123456''], expiresAt = Some 400000, code_type = RECOVERY,
                          code_userId = ''u1'', code_createdAt = 100000\<rparr>"

definition bob_verification :: Code where
  "bob_verification = \<lparr>tokens = [''555555''], expiresAt = Some 300000,
                       code_type = VERIFICATION, code_userId = ''u2'', code_createdAt = 0\<rparr>"

definition world_shared_code :: world where
  "world_shared_code = world0\<lparr>codes := [bob_recovery, alice_recovery_late, bob_verification]\<rparr>"

text \<open>
  A table where a row of Bob precedes Alice's two rows, and the store after Alice's password
  has been reset by a call that carried Bob's email.
\<close>

definition world_cross_user :: world where
  "world_cross_user = world0\<lparr>codes := [bob_verification, alice_recovery, alice_verification]\<rparr>"

definition world_cross_user_reset :: world where
  "world_cross_user_reset =
     world0\<lparr>users := [alice\<lparr>hashedPassword := ''$argon2id$hacked''\<rparr>, bob],
            codes := [bob_verification, alice_recovery],
            outbox := [NotificationResetPassword ''b@x.com'']\<rparr>"

definition carol_registration :: RegisterUser where
  "carol_registration = \<lparr>reg_email = ''c@x.com'', reg_password = ''pw3'',
                         reg_displayName = ''Carol'', reg_birthday = 0, reg_gender = OTHER\<rparr>"

definition carol :: User where
  "carol = \<lparr>user_id = ''u3'', profileId = ''p3'', primaryEmail = ''c@x.com'',
            displayName = ''Carol'', birthday = 0, gender = OTHER,
            hashedPassword = ''$argon2id$pw3''\<rparr>"

section \<open>Facts about the store operations\<close>

lemma code_findFirst_has_holds:
  "code_findFirst_has c cs = Some r \<Longrightarrow> c \<in> set (tokens r)"
  unfolding code_findFirst_has_def by (auto simp: find_Some_iff)

lemma code_findFirst_has_first:
  "list_all (\<lambda>k. c \<notin> set (tokens k)) pre \<Longrightarrow> c \<in> set (tokens r)
     \<Longrightarrow> code_findFirst_has c (pre @ r # post) = Some r"
  unfolding code_findFirst_has_def by (induction pre) auto

lemma code_findFirst_has_none:
  "list_all (\<lambda>k. c \<notin> set (tokens k)) cs \<longleftrightarrow> code_findFirst_has c cs = None"
  unfolding code_findFirst_has_def by (induction cs) auto

lemma find_snoc_fresh: "find P xs = None \<Longrightarrow> P y \<Longrightarrow> find P (xs @ [y]) = Some y"
  by (induction xs) (auto split: if_splits)

lemma find_map_keeps:
  assumes "\<And>u. P (f u) = P u"
  shows "find P (map f us) = map_option f (find P us)"
  using assms by (induction us) auto

lemma find_set_hashedPassword:
  "find (\<lambda>u. user_id u = uid) (set_hashedPassword uid' h us)
     = map_option (\<lambda>u. if user_id u = uid' then u\<lparr>hashedPassword := h\<rparr> else u)
         (find (\<lambda>u. user_id u = uid) us)"
  unfolding set_hashedPassword_def by (rule find_map_keeps) simp

lemma find_user_id: "find (\<lambda>v. user_id v = uid) us = Some u \<Longrightarrow> user_id u = uid"
  by (auto simp: find_Some_iff)

lemma find_None_list_ex: "find P xs = None \<longleftrightarrow> \<not> list_ex P xs"
  by (induction xs) auto

lemma latest_None_iff: "latest ss = None \<longleftrightarrow> ss = []"
  by (cases ss) (auto split: option.splits)

lemma filter_Nil_list_ex: "filter P xs = [] \<longleftrightarrow> \<not> list_ex P xs"
  by (induction xs) auto

lemma detectDevice_None_iff:
  "detectDevice uid ip dn ss = None \<longleftrightarrow>
     \<not> list_ex (\<lambda>s. session_userId s = uid \<and> deviceName s = Some dn \<and> ipAddress s = Some ip) ss"
  unfolding detectDevice_def by (simp add: latest_None_iff filter_Nil_list_ex)

lemma session_updateMany_revoke_idem:
  "session_updateMany_revoke sid uid (session_updateMany_revoke sid uid ss)
     = session_updateMany_revoke sid uid ss"
  by (induction ss) (auto simp: session_updateMany_revoke_def split: option.splits)

lemma session_findFirst_id_after_revoke:
  "map_option session_userId (session_findFirst_id i (session_updateMany_revoke sid uid ss))
     = map_option session_userId (session_findFirst_id i ss)"
proof (cases i)
  case None
  then show ?thesis
    by (cases ss) (auto simp: session_findFirst_id_def session_updateMany_revoke_def)
next
  case (Some j)
  have "find (\<lambda>s. session_id s = j) (session_updateMany_revoke sid uid ss)
          = map_option (\<lambda>s. if session_id s = sid \<and> (case uid of None \<Rightarrow> True | Some u \<Rightarrow> session_userId s = u)
               then s\<lparr>refreshTokenHashed := None, revoked := True\<rparr> else s)
              (find (\<lambda>s. session_id s = j) ss)"
    unfolding session_updateMany_revoke_def by (rule find_map_keeps) simp
  then show ?thesis using Some
    by (cases "find (\<lambda>s. session_id s = j) ss") (auto simp: session_findFirst_id_def)
qed

lemma no_active_after_revoke:
  assumes "list_all (\<lambda>t. session_userId t = uid \<longrightarrow> session_id t = sid) ss"
  shows "\<not> list_ex (\<lambda>t. session_userId t = uid \<and> \<not> revoked t)
           (map (\<lambda>t. if session_id t = sid \<and> session_userId t = uid
                     then t\<lparr>refreshTokenHashed := None, revoked := True\<rparr> else t) ss)"
  using assms by (induction ss) auto

section \<open>Login: device detection and rejections\<close>

text \<open>
  A User-Agent the parser recognises nothing in gives the fallback fingerprint.
\<close>

lemma getDeviceName_unparseable:
  "\<not> truthy (ua_browser_name x ua) \<Longrightarrow> \<not> truthy (ua_os_name x ua)
     \<Longrightarrow> getDeviceName x ua = ''Unknown browser on Unknown OS''"
  by (auto simp: getDeviceName_def or_else_def truthy_def split: option.splits)

text \<open>
  What a successful login adds to the mails: the "new device" notification exactly when a
  session of this user with the same address and fingerprint is already stored.
\<close>

lemma login_outbox:
  assumes "login x newId now toks d req w = (Inr r, w')"
      and "find (\<lambda>u. primaryEmail u = login_email d) (users w) = Some u"
  shows "outbox w' = outbox w @
           (if list_ex (\<lambda>s. session_userId s = user_id u
                            \<and> deviceName s = Some (getDeviceName x (or_else (user_agent req) ''Unknown''))
                            \<and> ipAddress s = Some (extractIp req)) (sessions w)
            then [DetectOtherDevice (primaryEmail u) (extractIp req)
                    (or_else (user_agent req) ''Unknown'')
                    (getDeviceName x (or_else (user_agent req) ''Unknown''))]
            else [])"
proof -
  let ?ua = "or_else (user_agent req) ''Unknown''"
  let ?known = "list_ex (\<lambda>s. session_userId s = user_id u
                            \<and> deviceName s = Some (getDeviceName x ?ua)
                            \<and> ipAddress s = Some (extractIp req)) (sessions w)"
  show ?thesis
  proof (cases "detectDevice (user_id u) (extractIp req) (getDeviceName x ?ua) (sessions w)")
    case None
    then have "\<not> ?known" by (simp add: detectDevice_None_iff)
    then show ?thesis using assms None
      by (auto simp: login_def createSession_def Let_def
               split: if_splits option.splits prod.splits sum.splits)
  next
    case (Some y)
    then have "?known" using detectDevice_None_iff [of "user_id u" "extractIp req"
        "getDeviceName x ?ua" "sessions w"] by simp
    then show ?thesis using assms Some
      by (auto simp: login_def createSession_def Let_def
               split: if_splits option.splits prod.splits sum.splits)
  qed
qed

text \<open>
  C1 (the notification is sent iff the user has no prior session with this address and
  fingerprint). The code does the opposite. Alice's first login, with no session stored at
  all, succeeds, stores her session and sends no mail; her next login from the same address
  and browser, which that session now matches, sends the "new device" mail. \<open>detectDevice\<close>
  returns the matching session and \<open>login\<close> reads it as \<^verbatim>\<open>isNew\<close>.
\<close>

theorem login_notifies_known_device_only:
  "sessions world0 = []
   \<and> login sample_ext ''s1'' 1000 sample_tokens alice_login firefox_req world0
       = (Inr (UserWithoutPassword.truncate alice), world_logged_in)
   \<and> outbox world_logged_in = []
   \<and> outbox (snd (login sample_ext ''s9'' 5000 sample_tokens alice_login
                    (firefox_req\<lparr>cookie_session_id := Some ''s1''\<rparr>) world_logged_in))
       = [DetectOtherDevice ''a@x.com'' ''10.0.0.7''
            ''Mozilla/5.0 (X11; Linux x86_64) Firefox/128.0'' ''Firefox on Linux'']"
  by (simp add: sample_ext_def alice_def bob_def world0_def firefox_req_def sample_tokens_def
        alice_login_def alice_session_def world_logged_in_def
        login_def createSession_def storeRefreshToken_def detectDevice_def getDeviceName_def
        extractIp_def or_else_def hashing_def Let_def UserWithoutPassword.defs)

text \<open>
  C6 (login fails with NotFound for an unknown primary email and with Unauthorized for a
  wrong password, and then leaves the session store as it was). Both errors return the
  state untouched.
\<close>

theorem login_rejections:
  "(find (\<lambda>u. primaryEmail u = login_email d) (users w) = None
      \<longrightarrow> login x newId now toks d req w = (Inl (NotFoundException ''User not found''), w))
   \<and> (find (\<lambda>u. primaryEmail u = login_email d) (users w) = Some u
        \<and> \<not> argon2_verify x (hashedPassword u) (login_password d)
      \<longrightarrow> login x newId now toks d req w
            = (Inl (UnauthorizedException ''Password is not matched''), w)
          \<and> sessions (snd (login x newId now toks d req w)) = sessions w)"
  by (simp add: login_def)

theorem login_rejections_witness:
  "find (\<lambda>u. primaryEmail u = login_email \<lparr>login_email = ''nobody@x.com'', login_password = ''pw1''\<rparr>)
        (users world_logged_in) = None
   \<and> login sample_ext ''s9'' 5000 sample_tokens
        \<lparr>login_email = ''nobody@x.com'', login_password = ''pw1''\<rparr> firefox_req world_logged_in
       = (Inl (NotFoundException ''User not found''), world_logged_in)
   \<and> find (\<lambda>u. primaryEmail u = login_email \<lparr>login_email = ''a@x.com'', login_password = ''wrong''\<rparr>)
        (users world_logged_in) = Some alice
   \<and> \<not> argon2_verify sample_ext (hashedPassword alice)
          (login_password \<lparr>login_email = ''a@x.com'', login_password = ''wrong''\<rparr>)
   \<and> login sample_ext ''s9'' 5000 sample_tokens
        \<lparr>login_email = ''a@x.com'', login_password = ''wrong''\<rparr> firefox_req world_logged_in
       = (Inl (UnauthorizedException ''Password is not matched''), world_logged_in)
   \<and> sessions (snd (login sample_ext ''s9'' 5000 sample_tokens
        \<lparr>login_email = ''a@x.com'', login_password = ''wrong''\<rparr> firefox_req world_logged_in))
       = [alice_session]"
proof -
  have n: "find (\<lambda>u. primaryEmail u = login_email \<lparr>login_email = ''nobody@x.com'', login_password = ''pw1''\<rparr>)
        (users world_logged_in) = None"
    by (simp add: sample_ext_def alice_def bob_def world0_def alice_session_def world_logged_in_def)
  have f: "find (\<lambda>u. primaryEmail u = login_email \<lparr>login_email = ''a@x.com'', login_password = ''wrong''\<rparr>)
        (users world_logged_in) = Some alice"
    by (simp add: sample_ext_def alice_def bob_def world0_def alice_session_def world_logged_in_def)
  have v: "\<not> argon2_verify sample_ext (hashedPassword alice)
          (login_password \<lparr>login_email = ''a@x.com'', login_password = ''wrong''\<rparr>)"
    by (simp add: sample_ext_def alice_def bob_def world0_def alice_session_def world_logged_in_def)
  have s: "sessions world_logged_in = [alice_session]" by (simp add: sample_ext_def alice_def bob_def world0_def alice_session_def world_logged_in_def)
  show ?thesis
    using n f v s
      login_rejections [of "\<lparr>login_email = ''nobody@x.com'', login_password = ''pw1''\<rparr>" world_logged_in
            sample_ext "''s9''" 5000 sample_tokens firefox_req alice]
      login_rejections [of "\<lparr>login_email = ''a@x.com'', login_password = ''wrong''\<rparr>" world_logged_in
            sample_ext "''s9''" 5000 sample_tokens firefox_req alice]
    by simp
qed

section \<open>Password recovery\<close>

text \<open>
  C2 (a confirmation right after a successful recovery request succeeds and changes the
  hash) fails on the code: Alice requests recovery at time 1000, the RECOVERY row holding
  123456 is created, and confirming at that same instant is refused with Conflict.
\<close>

theorem confirm_right_after_recovery_is_refused:
  "findPrimaryUserByEmail ''a@x.com'' (users world0) = Some alice
   \<and> recoveryAccount ''123456'' 1000 ''a@x.com'' world0
       = (Inr ''Send recovery email successful'', world_recovery)
   \<and> confirmRecoveryAccount sample_ext 1000 ''a@x.com'' ''123456'' ''newpw'' world_recovery
       = (Inl (ConflictException ''Please wait 1 minutes before requesting again''), world_recovery)"
  by (simp add: sample_ext_def alice_def bob_def world0_def alice_recovery_def world_recovery_def
        recoveryAccount_def confirmRecoveryAccount_def code_findFirst_has_def code_upsert_def
        code_exists_def findPrimaryUserByEmail_def MIN_TIME_TO_REQUEST_def
        MAXINUM_AVAILABLE_TIME_def Let_def)

text \<open>
  C2 as amended: when a successful recovery request creates the user's RECOVERY row and no
  older row holds the issued code, every confirmation with that code made less than 60
  seconds later fails with Conflict and changes nothing, whatever email and new password
  it carries.
\<close>

theorem confirm_within_minute_of_first_issue:
  assumes "recoveryAccount tok now e w = (Inr m, w1)"
      and "code_findFirst_has tok (codes w) = None"
      and "findPrimaryUserByEmail e (users w) = Some u"
      and "\<not> code_exists (user_id u) RECOVERY (codes w)"
      and "now \<le> now'" and "now' < now + 60000"
  shows "confirmRecoveryAccount x now' e tok pw w1
           = (Inl (ConflictException ''Please wait 1 minutes before requesting again''), w1)"
proof -
  let ?row = "\<lparr>tokens = [tok], expiresAt = Some (now + MAXINUM_AVAILABLE_TIME),
               code_type = RECOVERY, code_userId = user_id u, code_createdAt = now\<rparr>"
  have "codes w1 = codes w @ [?row]"
    using assms(1,3,4) by (auto simp: recoveryAccount_def code_upsert_def Let_def)
  then have "code_findFirst_has tok (codes w1) = Some ?row"
    using assms(2) by (simp add: code_findFirst_has_def find_snoc_fresh)
  then show ?thesis using assms(5,6)
    by (simp add: confirmRecoveryAccount_def MIN_TIME_TO_REQUEST_def)
qed

theorem confirm_within_minute_of_first_issue_witness:
  "recoveryAccount ''123456'' 1000 ''a@x.com'' world0
       = (Inr ''Send recovery email successful'', world_recovery)
   \<and> code_findFirst_has ''123456'' (codes world0) = None
   \<and> findPrimaryUserByEmail ''a@x.com'' (users world0) = Some alice
   \<and> \<not> code_exists (user_id alice) RECOVERY (codes world0)
   \<and> confirmRecoveryAccount sample_ext 59999 ''a@x.com'' ''123456'' ''newpw'' world_recovery
       = (Inl (ConflictException ''Please wait 1 minutes before requesting again''), world_recovery)"
proof -
  have a: "recoveryAccount ''123456'' 1000 ''a@x.com'' world0
       = (Inr ''Send recovery email successful'', world_recovery)"
    by (simp add: sample_ext_def alice_def bob_def world0_def alice_recovery_def world_recovery_def
        recoveryAccount_def confirmRecoveryAccount_def code_findFirst_has_def code_upsert_def
        code_exists_def findPrimaryUserByEmail_def MIN_TIME_TO_REQUEST_def
        MAXINUM_AVAILABLE_TIME_def Let_def)
  have b: "code_findFirst_has ''123456'' (codes world0) = None"
    by (simp add: sample_ext_def alice_def bob_def world0_def alice_recovery_def world_recovery_def
        recoveryAccount_def confirmRecoveryAccount_def code_findFirst_has_def code_upsert_def
        code_exists_def findPrimaryUserByEmail_def MIN_TIME_TO_REQUEST_def
        MAXINUM_AVAILABLE_TIME_def Let_def)
  have c: "findPrimaryUserByEmail ''a@x.com'' (users world0) = Some alice"
    by (simp add: sample_ext_def alice_def bob_def world0_def alice_recovery_def world_recovery_def
        recoveryAccount_def confirmRecoveryAccount_def code_findFirst_has_def code_upsert_def
        code_exists_def findPrimaryUserByEmail_def MIN_TIME_TO_REQUEST_def
        MAXINUM_AVAILABLE_TIME_def Let_def)
  have d: "\<not> code_exists (user_id alice) RECOVERY (codes world0)"
    by (simp add: sample_ext_def alice_def bob_def world0_def alice_recovery_def world_recovery_def
        recoveryAccount_def confirmRecoveryAccount_def code_findFirst_has_def code_upsert_def
        code_exists_def findPrimaryUserByEmail_def MIN_TIME_TO_REQUEST_def
        MAXINUM_AVAILABLE_TIME_def Let_def)
  show ?thesis using a b c d confirm_within_minute_of_first_issue [OF a b c d, of 59999 sample_ext "''newpw''"] by simp
qed

text \<open>
  C3 (Conflict whenever a Code row containing the code is younger than 60 seconds) fails on
  the code, which looks at one row only, the first of the table that holds the code. Bob's
  and Alice's RECOVERY rows hold the same code; at time 120000 Alice's row is 20 seconds
  old, yet the call is not refused: it goes by Bob's older row, succeeds and resets Bob's
  password.
\<close>

theorem confirmRecoveryAccount_young_row_behind_old_one:
  "codes world_shared_code = [bob_recovery, alice_recovery_late, bob_verification]
   \<and> ''123456'' \<in> set (tokens alice_recovery_late)
   \<and> (120000::int) < code_createdAt alice_recovery_late + 60000
   \<and> confirmRecoveryAccount sample_ext 120000 ''a@x.com'' ''123456'' ''newpw'' world_shared_code
       = (Inr ''Send notification recovery email successful'',
          world0\<lparr>users := [alice, bob\<lparr>hashedPassword := ''$argon2id$newpw''\<rparr>],
                 codes := [bob_recovery, alice_recovery_late],
                 outbox := [NotificationResetPassword ''a@x.com'']\<rparr>)"
  by (simp add: sample_ext_def alice_def bob_def world0_def bob_recovery_def
        alice_recovery_late_def bob_verification_def world_shared_code_def
        confirmRecoveryAccount_def code_findFirst_has_def code_exists_def user_exists_def
        user_update_hash_delete_code_def set_hashedPassword_def hashing_def
        MIN_TIME_TO_REQUEST_def MAXINUM_AVAILABLE_TIME_def)

text \<open>
  C3 as amended, stated on the rows of the table: with \<open>r\<close> the first row that holds the
  code (no row before it does), the call fails with Conflict whenever \<open>r\<close> is younger than
  60 seconds, a test made with no regard to expiry and so before it; otherwise it fails
  with Unauthorized whenever no row holds the code or \<open>r\<close> is older than 5 minutes. Rows
  after \<open>r\<close> that hold the same code play no part. Neither error changes the state.
\<close>

theorem confirmRecoveryAccount_guards_first_row:
  "(codes w = pre @ r # post \<and> list_all (\<lambda>k. code \<notin> set (tokens k)) pre
      \<and> code \<in> set (tokens r) \<and> now < code_createdAt r + 60000
      \<longrightarrow> confirmRecoveryAccount x now email code pw w
            = (Inl (ConflictException ''Please wait 1 minutes before requesting again''), w))
   \<and> ((list_all (\<lambda>k. code \<notin> set (tokens k)) (codes w)
        \<or> (codes w = pre @ r # post \<and> list_all (\<lambda>k. code \<notin> set (tokens k)) pre
             \<and> code \<in> set (tokens r) \<and> code_createdAt r + 60000 \<le> now
             \<and> code_createdAt r + 5 * 60000 < now))
      \<longrightarrow> confirmRecoveryAccount x now email code pw w
            = (Inl (UnauthorizedException ''Code is not matched or expired''), w))"
proof (rule conjI; rule impI)
  assume "codes w = pre @ r # post \<and> list_all (\<lambda>k. code \<notin> set (tokens k)) pre
      \<and> code \<in> set (tokens r) \<and> now < code_createdAt r + 60000"
  then have "code_findFirst_has code (codes w) = Some r" and "now < code_createdAt r + 60000"
    by (simp_all add: code_findFirst_has_first)
  then show "confirmRecoveryAccount x now email code pw w
            = (Inl (ConflictException ''Please wait 1 minutes before requesting again''), w)"
    by (simp add: confirmRecoveryAccount_def MIN_TIME_TO_REQUEST_def)
next
  assume "list_all (\<lambda>k. code \<notin> set (tokens k)) (codes w)
        \<or> (codes w = pre @ r # post \<and> list_all (\<lambda>k. code \<notin> set (tokens k)) pre
             \<and> code \<in> set (tokens r) \<and> code_createdAt r + 60000 \<le> now
             \<and> code_createdAt r + 5 * 60000 < now)"
  then consider
      (none) "code_findFirst_has code (codes w) = None"
    | (old) "code_findFirst_has code (codes w) = Some r" "code_createdAt r + 60000 \<le> now"
            "code_createdAt r + 5 * 60000 < now"
    by (auto simp: code_findFirst_has_first code_findFirst_has_none)
  then show "confirmRecoveryAccount x now email code pw w
            = (Inl (UnauthorizedException ''Code is not matched or expired''), w)"
  proof cases
    case none
    then show ?thesis by (simp add: confirmRecoveryAccount_def)
  next
    case old
    then show ?thesis
      by (simp add: confirmRecoveryAccount_def MIN_TIME_TO_REQUEST_def MAXINUM_AVAILABLE_TIME_def)
  qed
qed

theorem confirmRecoveryAccount_guards_first_row_witness:
  "codes world_shared_code = [] @ bob_recovery # [alice_recovery_late, bob_verification]
   \<and> ''123456'' \<in> set (tokens bob_recovery)
   \<and> (59999::int) < code_createdAt bob_recovery + 60000
   \<and> confirmRecoveryAccount sample_ext 59999 ''a@x.com'' ''123456'' ''newpw'' world_shared_code
       = (Inl (ConflictException ''Please wait 1 minutes before requesting again''), world_shared_code)
   \<and> code_createdAt bob_recovery + 60000 \<le> (300001::int)
   \<and> code_createdAt bob_recovery + 5 * 60000 < (300001::int)
   \<and> confirmRecoveryAccount sample_ext 300001 ''a@x.com'' ''123456'' ''newpw'' world_shared_code
       = (Inl (UnauthorizedException ''Code is not matched or expired''), world_shared_code)
   \<and> list_all (\<lambda>k. ''000000'' \<notin> set (tokens k)) (codes world_shared_code)
   \<and> confirmRecoveryAccount sample_ext 120000 ''a@x.com'' ''000000'' ''newpw'' world_shared_code
       = (Inl (UnauthorizedException ''Code is not matched or expired''), world_shared_code)"
proof -
  have d: "codes world_shared_code = [] @ bob_recovery # [alice_recovery_late, bob_verification]"
    by (simp add: world_shared_code_def)
  have p: "list_all (\<lambda>k. ''123456'' \<notin> set (tokens k)) []" by simp
  have h: "''123456'' \<in> set (tokens bob_recovery)" by (simp add: bob_recovery_def)
  have t: "code_createdAt bob_recovery = 0" by (simp add: bob_recovery_def)
  have n: "list_all (\<lambda>k. ''000000'' \<notin> set (tokens k)) (codes world_shared_code)"
    by (simp add: world_shared_code_def bob_recovery_def alice_recovery_late_def
          bob_verification_def)
  show ?thesis
    using d p h t n
      confirmRecoveryAccount_guards_first_row [of world_shared_code "[]" bob_recovery "[alice_recovery_late, bob_verification]"
             "''123456''" 59999 sample_ext "''a@x.com''" "''newpw''"]
      confirmRecoveryAccount_guards_first_row [of world_shared_code "[]" bob_recovery "[alice_recovery_late, bob_verification]"
             "''123456''" 300001 sample_ext "''a@x.com''" "''newpw''"]
      confirmRecoveryAccount_guards_first_row [of world_shared_code "[]" bob_recovery "[alice_recovery_late, bob_verification]"
             "''000000''" 120000 sample_ext "''a@x.com''" "''newpw''"]
    by simp
qed

text \<open>
  C4 (the Code row is located by the token alone, among the rows of every user and type,
  and the email argument never identifies the account). Two calls that differ in the email
  only have the same outcome and leave the same users, sessions, codes and Redis calls. A
  call that succeeds found a row holding the code; and with \<open>r\<close> the first row of the table
  that holds it, whoever owns \<open>r\<close> and whatever its type, the password that changes is that
  of the owner of \<open>r\<close>, the VERIFICATION row of that owner is removed, and the email only
  names the recipient of the notification. In the witness the call carries Bob's email and
  a code of Alice, whose rows come after a row of Bob: Alice's password changes, Bob's
  does not, once through her RECOVERY row and once through her VERIFICATION row.
\<close>

theorem confirmRecoveryAccount_ignores_email:
  "fst (confirmRecoveryAccount x now e1 c pw w) = fst (confirmRecoveryAccount x now e2 c pw w)
   \<and> users (snd (confirmRecoveryAccount x now e1 c pw w))
       = users (snd (confirmRecoveryAccount x now e2 c pw w))
   \<and> sessions (snd (confirmRecoveryAccount x now e1 c pw w))
       = sessions (snd (confirmRecoveryAccount x now e2 c pw w))
   \<and> codes (snd (confirmRecoveryAccount x now e1 c pw w))
       = codes (snd (confirmRecoveryAccount x now e2 c pw w))
   \<and> redis_sets (snd (confirmRecoveryAccount x now e1 c pw w))
       = redis_sets (snd (confirmRecoveryAccount x now e2 c pw w))
   \<and> (confirmRecoveryAccount x now e1 c pw w = (Inr m, w') \<longrightarrow>
        \<not> list_all (\<lambda>k. c \<notin> set (tokens k)) (codes w))
   \<and> (codes w = pre @ r # post \<and> list_all (\<lambda>k. c \<notin> set (tokens k)) pre
        \<and> c \<in> set (tokens r) \<and> confirmRecoveryAccount x now e1 c pw w = (Inr m, w') \<longrightarrow>
          users w' = set_hashedPassword (code_userId r) (hashing x pw) (users w)
        \<and> codes w' = filter (\<lambda>k. \<not> (code_userId k = code_userId r \<and> code_type k = VERIFICATION))
                        (codes w)
        \<and> sessions w' = sessions w \<and> redis_sets w' = redis_sets w
        \<and> outbox w' = outbox w @ [NotificationResetPassword e1])"
proof -
  have same: "fst (confirmRecoveryAccount x now e1 c pw w) = fst (confirmRecoveryAccount x now e2 c pw w)
   \<and> users (snd (confirmRecoveryAccount x now e1 c pw w))
       = users (snd (confirmRecoveryAccount x now e2 c pw w))
   \<and> sessions (snd (confirmRecoveryAccount x now e1 c pw w))
       = sessions (snd (confirmRecoveryAccount x now e2 c pw w))
   \<and> codes (snd (confirmRecoveryAccount x now e1 c pw w))
       = codes (snd (confirmRecoveryAccount x now e2 c pw w))
   \<and> redis_sets (snd (confirmRecoveryAccount x now e1 c pw w))
       = redis_sets (snd (confirmRecoveryAccount x now e2 c pw w))"
    by (auto simp: confirmRecoveryAccount_def user_update_hash_delete_code_def
             split: option.splits if_splits)
  have held: "confirmRecoveryAccount x now e1 c pw w = (Inr m, w') \<longrightarrow>
        \<not> list_all (\<lambda>k. c \<notin> set (tokens k)) (codes w)"
    by (auto simp: confirmRecoveryAccount_def code_findFirst_has_none split: option.splits)
  have owner: "codes w = pre @ r # post \<and> list_all (\<lambda>k. c \<notin> set (tokens k)) pre
        \<and> c \<in> set (tokens r) \<and> confirmRecoveryAccount x now e1 c pw w = (Inr m, w') \<longrightarrow>
          users w' = set_hashedPassword (code_userId r) (hashing x pw) (users w)
        \<and> codes w' = filter (\<lambda>k. \<not> (code_userId k = code_userId r \<and> code_type k = VERIFICATION))
                        (codes w)
        \<and> sessions w' = sessions w \<and> redis_sets w' = redis_sets w
        \<and> outbox w' = outbox w @ [NotificationResetPassword e1]"
  proof
    assume a: "codes w = pre @ r # post \<and> list_all (\<lambda>k. c \<notin> set (tokens k)) pre
        \<and> c \<in> set (tokens r) \<and> confirmRecoveryAccount x now e1 c pw w = (Inr m, w')"
    then have "code_findFirst_has c (codes w) = Some r"
      by (simp add: code_findFirst_has_first)
    with a show "users w' = set_hashedPassword (code_userId r) (hashing x pw) (users w)
        \<and> codes w' = filter (\<lambda>k. \<not> (code_userId k = code_userId r \<and> code_type k = VERIFICATION))
                        (codes w)
        \<and> sessions w' = sessions w \<and> redis_sets w' = redis_sets w
        \<and> outbox w' = outbox w @ [NotificationResetPassword e1]"
      by (auto simp: confirmRecoveryAccount_def user_update_hash_delete_code_def
               split: option.splits if_splits)
  qed
  from same held owner show ?thesis by blast
qed

theorem confirmRecoveryAccount_ignores_email_witness:
  "codes world_cross_user = [bob_verification] @ alice_recovery # [alice_verification]
   \<and> list_all (\<lambda>k. ''123456'' \<notin> set (tokens k)) [bob_verification]
   \<and> ''123456'' \<in> set (tokens alice_recovery)
   \<and> code_userId alice_recovery = ''u1'' \<and> code_type alice_recovery = RECOVERY
   \<and> findPrimaryUserByEmail ''b@x.com'' (users world_cross_user) = Some bob
   \<and> confirmRecoveryAccount sample_ext 120000 ''b@x.com'' ''123456'' ''hacked'' world_cross_user
       = (Inr ''Send notification recovery email successful'', world_cross_user_reset)
   \<and> users world_cross_user_reset
       = set_hashedPassword ''u1'' ''$argon2id$hacked'' (users world_cross_user)
   \<and> users world_cross_user_reset = [alice\<lparr>hashedPassword := ''$argon2id$hacked''\<rparr>, bob]
   \<and> outbox world_cross_user_reset = [NotificationResetPassword ''b@x.com'']
   \<and> codes world_cross_user = [bob_verification, alice_recovery] @ alice_verification # []
   \<and> list_all (\<lambda>k. ''777777'' \<notin> set (tokens k)) [bob_verification, alice_recovery]
   \<and> ''777777'' \<in> set (tokens alice_verification)
   \<and> code_type alice_verification = VERIFICATION
   \<and> confirmRecoveryAccount sample_ext 120000 ''b@x.com'' ''777777'' ''hacked'' world_cross_user
       = (Inr ''Send notification recovery email successful'', world_cross_user_reset)
   \<and> fst (confirmRecoveryAccount sample_ext 120000 ''a@x.com'' ''123456'' ''hacked'' world_cross_user)
       = Inr ''Send notification recovery email successful''
   \<and> users (snd (confirmRecoveryAccount sample_ext 120000 ''a@x.com'' ''123456'' ''hacked''
                    world_cross_user))
       = [alice\<lparr>hashedPassword := ''$argon2id$hacked''\<rparr>, bob]"
proof -
  have d1: "codes world_cross_user = [bob_verification] @ alice_recovery # [alice_verification]"
    by (simp add: world_cross_user_def)
  have p1: "list_all (\<lambda>k. ''123456'' \<notin> set (tokens k)) [bob_verification]"
    by (simp add: bob_verification_def)
  have h1: "''123456'' \<in> set (tokens alice_recovery)" by (simp add: alice_recovery_def)
  have o1: "code_userId alice_recovery = ''u1'' \<and> code_type alice_recovery = RECOVERY"
    by (simp add: alice_recovery_def)
  have b: "findPrimaryUserByEmail ''b@x.com'' (users world_cross_user) = Some bob"
    by (simp add: findPrimaryUserByEmail_def world_cross_user_def world0_def alice_def bob_def)
  have s1: "confirmRecoveryAccount sample_ext 120000 ''b@x.com'' ''123456'' ''hacked''
              world_cross_user
       = (Inr ''Send notification recovery email successful'', world_cross_user_reset)"
    by (simp add: sample_ext_def alice_def bob_def world0_def alice_recovery_def
          alice_verification_def bob_verification_def world_cross_user_def
          world_cross_user_reset_def
          confirmRecoveryAccount_def code_findFirst_has_def code_exists_def user_exists_def
          user_update_hash_delete_code_def set_hashedPassword_def hashing_def
          MIN_TIME_TO_REQUEST_def MAXINUM_AVAILABLE_TIME_def)
  have d2: "codes world_cross_user = [bob_verification, alice_recovery] @ alice_verification # []"
    by (simp add: world_cross_user_def)
  have p2: "list_all (\<lambda>k. ''777777'' \<notin> set (tokens k)) [bob_verification, alice_recovery]"
    by (simp add: bob_verification_def alice_recovery_def)
  have h2: "''777777'' \<in> set (tokens alice_verification)"
    by (simp add: alice_verification_def)
  have o2: "code_type alice_verification = VERIFICATION" by (simp add: alice_verification_def)
  have s2: "confirmRecoveryAccount sample_ext 120000 ''b@x.com'' ''777777'' ''hacked''
              world_cross_user
       = (Inr ''Send notification recovery email successful'', world_cross_user_reset)"
    by (simp add: sample_ext_def alice_def bob_def world0_def alice_recovery_def
          alice_verification_def bob_verification_def world_cross_user_def
          world_cross_user_reset_def
          confirmRecoveryAccount_def code_findFirst_has_def code_exists_def user_exists_def
          user_update_hash_delete_code_def set_hashedPassword_def hashing_def
          MIN_TIME_TO_REQUEST_def MAXINUM_AVAILABLE_TIME_def)
  have hh: "hashing sample_ext ''hacked'' = ''$argon2id$hacked''"
    by (simp add: hashing_def sample_ext_def)
  have ur: "users world_cross_user_reset = [alice\<lparr>hashedPassword := ''$argon2id$hacked''\<rparr>, bob]"
    by (simp add: world_cross_user_reset_def)
  have orr: "outbox world_cross_user_reset = [NotificationResetPassword ''b@x.com'']"
    by (simp add: world_cross_user_reset_def)
  note inst = confirmRecoveryAccount_ignores_email
      [where x = sample_ext and now = 120000 and ?e1.0 = "''b@x.com''" and c = "''123456''"
         and pw = "''hacked''" and w = world_cross_user and ?e2.0 = "''b@x.com''"
         and m = "''Send notification recovery email successful''"
         and w' = world_cross_user_reset and pre = "[bob_verification]"
         and r = alice_recovery and post = "[alice_verification]"]
  have own: "users world_cross_user_reset
       = set_hashedPassword ''u1'' ''$argon2id$hacked'' (users world_cross_user)"
    using inst d1 p1 h1 o1 s1 hh by simp
  note flip = confirmRecoveryAccount_ignores_email
      [where x = sample_ext and now = 120000 and ?e1.0 = "''a@x.com''" and c = "''123456''"
         and pw = "''hacked''" and w = world_cross_user and ?e2.0 = "''b@x.com''"
         and m = "''Send notification recovery email successful''"
         and w' = world_cross_user_reset and pre = "[bob_verification]"
         and r = alice_recovery and post = "[alice_verification]"]
  have same: "fst (confirmRecoveryAccount sample_ext 120000 ''a@x.com'' ''123456'' ''hacked''
                     world_cross_user)
       = Inr ''Send notification recovery email successful''
   \<and> users (snd (confirmRecoveryAccount sample_ext 120000 ''a@x.com'' ''123456'' ''hacked''
                    world_cross_user))
       = [alice\<lparr>hashedPassword := ''$argon2id$hacked''\<rparr>, bob]"
    using flip s1 ur by simp
  show ?thesis
    using d1 p1 h1 o1 b s1 own ur orr d2 p2 h2 o2 s2 same by simp
qed

text \<open>
  C8 (the update deletes the VERIFICATION row of the user in the same write, so a RECOVERY
  code without such a row never completes the reset). A call that succeeds found such a row
  and removed it together with storing the hash. With the matched row of type RECOVERY and
  no VERIFICATION row of its user, no call succeeds and the state, every password hash
  included, stays as it was; inside the time window the failure is the rejected update.
\<close>

theorem confirmRecoveryAccount_needs_verification_row:
  "(confirmRecoveryAccount x now e c pw w = (Inr m, w') \<longrightarrow>
      (\<exists>r. code_findFirst_has c (codes w) = Some r
         \<and> code_exists (code_userId r) VERIFICATION (codes w)
         \<and> users w' = set_hashedPassword (code_userId r) (hashing x pw) (users w)
         \<and> codes w' = filter (\<lambda>k. \<not> (code_userId k = code_userId r \<and> code_type k = VERIFICATION))
                         (codes w)))
   \<and> (code_findFirst_has c (codes w) = Some r \<and> code_type r = RECOVERY
        \<and> \<not> code_exists (code_userId r) VERIFICATION (codes w) \<longrightarrow>
          (\<forall>m. fst (confirmRecoveryAccount x now e c pw w) \<noteq> Inr m)
        \<and> snd (confirmRecoveryAccount x now e c pw w) = w
        \<and> (code_createdAt r + 60000 \<le> now \<and> now \<le> code_createdAt r + 5 * 60000 \<longrightarrow>
              fst (confirmRecoveryAccount x now e c pw w) = Inl PrismaError))"
proof (rule conjI; rule impI)
  assume "confirmRecoveryAccount x now e c pw w = (Inr m, w')"
  then show "\<exists>r. code_findFirst_has c (codes w) = Some r
         \<and> code_exists (code_userId r) VERIFICATION (codes w)
         \<and> users w' = set_hashedPassword (code_userId r) (hashing x pw) (users w)
         \<and> codes w' = filter (\<lambda>k. \<not> (code_userId k = code_userId r \<and> code_type k = VERIFICATION))
                         (codes w)"
    by (auto simp: confirmRecoveryAccount_def user_update_hash_delete_code_def
             split: option.splits if_splits)
next
  assume a: "code_findFirst_has c (codes w) = Some r \<and> code_type r = RECOVERY
        \<and> \<not> code_exists (code_userId r) VERIFICATION (codes w)"
  then have held: "c \<in> set (tokens r)" by (auto dest: code_findFirst_has_holds)
  show "(\<forall>m. fst (confirmRecoveryAccount x now e c pw w) \<noteq> Inr m)
        \<and> snd (confirmRecoveryAccount x now e c pw w) = w
        \<and> (code_createdAt r + 60000 \<le> now \<and> now \<le> code_createdAt r + 5 * 60000 \<longrightarrow>
              fst (confirmRecoveryAccount x now e c pw w) = Inl PrismaError)"
    using a held
    by (auto simp: confirmRecoveryAccount_def user_update_hash_delete_code_def
          MIN_TIME_TO_REQUEST_def MAXINUM_AVAILABLE_TIME_def split: option.splits if_splits)
qed

theorem confirmRecoveryAccount_needs_verification_row_witness:
  "confirmRecoveryAccount sample_ext 120000 ''a@x.com'' ''123456'' ''hacked'' world_both_codes
     = (Inr ''Send notification recovery email successful'',
        world_hijacked\<lparr>outbox := [NotificationResetPassword ''a@x.com'']\<rparr>)
   \<and> code_exists ''u1'' VERIFICATION (codes world_both_codes)
   \<and> codes world_hijacked = [alice_recovery]
   \<and> code_findFirst_has ''123456'' (codes world_recovery) = Some alice_recovery
   \<and> code_type alice_recovery = RECOVERY
   \<and> \<not> code_exists (code_userId alice_recovery) VERIFICATION (codes world_recovery)
   \<and> code_createdAt alice_recovery + 60000 \<le> (120000::int)
   \<and> (120000::int) \<le> code_createdAt alice_recovery + 5 * 60000
   \<and> confirmRecoveryAccount sample_ext 120000 ''a@x.com'' ''123456'' ''newpw'' world_recovery
       = (Inl PrismaError, world_recovery)"
proof -
  have s: "confirmRecoveryAccount sample_ext 120000 ''a@x.com'' ''123456'' ''hacked'' world_both_codes
     = (Inr ''Send notification recovery email successful'',
        world_hijacked\<lparr>outbox := [NotificationResetPassword ''a@x.com'']\<rparr>)"
    by (simp add: sample_ext_def alice_def bob_def world0_def alice_recovery_def alice_verification_def
        world_both_codes_def world_hijacked_def world_recovery_def
        confirmRecoveryAccount_def code_findFirst_has_def code_exists_def user_exists_def
        user_update_hash_delete_code_def set_hashedPassword_def hashing_def
        MIN_TIME_TO_REQUEST_def MAXINUM_AVAILABLE_TIME_def)
  have g: "code_findFirst_has ''123456'' (codes world_both_codes) = Some alice_recovery"
    by (simp add: sample_ext_def alice_def bob_def world0_def alice_recovery_def alice_verification_def
        world_both_codes_def world_hijacked_def world_recovery_def
        confirmRecoveryAccount_def code_findFirst_has_def code_exists_def user_exists_def
        user_update_hash_delete_code_def set_hashedPassword_def hashing_def
        MIN_TIME_TO_REQUEST_def MAXINUM_AVAILABLE_TIME_def)
  have "\<exists>r. code_findFirst_has ''123456'' (codes world_both_codes) = Some r
         \<and> code_exists (code_userId r) VERIFICATION (codes world_both_codes)
         \<and> users (world_hijacked\<lparr>outbox := [NotificationResetPassword ''a@x.com'']\<rparr>)
             = set_hashedPassword (code_userId r) (hashing sample_ext ''hacked'')
                 (users world_both_codes)
         \<and> codes (world_hijacked\<lparr>outbox := [NotificationResetPassword ''a@x.com'']\<rparr>)
             = filter (\<lambda>k. \<not> (code_userId k = code_userId r \<and> code_type k = VERIFICATION))
                 (codes world_both_codes)"
    using s confirmRecoveryAccount_needs_verification_row
      [of sample_ext 120000 "''a@x.com''" "''123456''" "''hacked''" world_both_codes
          "''Send notification recovery email successful''"
          "world_hijacked\<lparr>outbox := [NotificationResetPassword ''a@x.com'']\<rparr>"]
    by blast
  then have v: "code_exists ''u1'' VERIFICATION (codes world_both_codes)
      \<and> codes world_hijacked = [alice_recovery]"
    using g by (simp add: sample_ext_def alice_def bob_def world0_def alice_recovery_def alice_verification_def
        world_both_codes_def world_hijacked_def world_recovery_def
        confirmRecoveryAccount_def code_findFirst_has_def code_exists_def user_exists_def
        user_update_hash_delete_code_def set_hashedPassword_def hashing_def
        MIN_TIME_TO_REQUEST_def MAXINUM_AVAILABLE_TIME_def)
  have f: "code_findFirst_has ''123456'' (codes world_recovery) = Some alice_recovery"
    by (simp add: sample_ext_def alice_def bob_def world0_def alice_recovery_def alice_verification_def
        world_both_codes_def world_hijacked_def world_recovery_def
        confirmRecoveryAccount_def code_findFirst_has_def code_exists_def user_exists_def
        user_update_hash_delete_code_def set_hashedPassword_def hashing_def
        MIN_TIME_TO_REQUEST_def MAXINUM_AVAILABLE_TIME_def)
  have t: "code_type alice_recovery = RECOVERY" by (simp add: alice_recovery_def)
  have n: "\<not> code_exists (code_userId alice_recovery) VERIFICATION (codes world_recovery)"
    by (simp add: sample_ext_def alice_def bob_def world0_def alice_recovery_def alice_verification_def
        world_both_codes_def world_hijacked_def world_recovery_def
        confirmRecoveryAccount_def code_findFirst_has_def code_exists_def user_exists_def
        user_update_hash_delete_code_def set_hashedPassword_def hashing_def
        MIN_TIME_TO_REQUEST_def MAXINUM_AVAILABLE_TIME_def)
  have c: "code_createdAt alice_recovery = 1000" by (simp add: alice_recovery_def)
  have "confirmRecoveryAccount sample_ext 120000 ''a@x.com'' ''123456'' ''newpw'' world_recovery
       = (Inl PrismaError, world_recovery)"
    using f t n c confirmRecoveryAccount_needs_verification_row
      [of sample_ext 120000 "''a@x.com''" "''123456''" "''newpw''" world_recovery _ _ alice_recovery]
    by (simp add: prod_eq_iff)
  then show ?thesis using s v f t n c by simp
qed

section \<open>Logout and token validation\<close>

text \<open>
  With neither an argument nor a cookie, logout fails with NotFound; with the id of a stored
  session as argument, that row ends revoked with its refresh-token hash cleared; and a
  second logout changes nothing more.
\<close>

lemma logout_NotFound:
  "\<not> truthy sessionId \<Longrightarrow> \<not> truthy (cookie_session_id req)
     \<Longrightarrow> logout req sessionId w = (Inl (NotFoundException ''Session ID is required for logout''), w)"
  by (auto simp: logout_def or_opt_def truthy_def Let_def split: option.splits)

lemma logout_explicit:
  assumes "find (\<lambda>s. session_id s = sid) (sessions w) = Some s" and "sid \<noteq> []"
  shows "logout req (Some sid) w =
           (Inr ''Logout successful'',
            w\<lparr>sessions := map (\<lambda>t. if session_id t = sid \<and> session_userId t = session_userId s
                                    then t\<lparr>refreshTokenHashed := None, revoked := True\<rparr> else t)
                              (sessions w)\<rparr>)"
  using assms
  by (simp add: logout_def session_findFirst_id_def or_opt_def truthy_def
        session_updateMany_revoke_def)

lemma logout_explicit_revokes:
  assumes "find (\<lambda>s. session_id s = sid) (sessions w) = Some s" and "sid \<noteq> []"
  shows "find (\<lambda>s. session_id s = sid) (sessions (snd (logout req (Some sid) w)))
           = Some (s\<lparr>refreshTokenHashed := None, revoked := True\<rparr>)"
proof -
  let ?f = "\<lambda>t. if session_id t = sid \<and> session_userId t = session_userId s
                 then t\<lparr>refreshTokenHashed := None, revoked := True\<rparr> else t"
  have "session_id s = sid" using assms(1) by (auto simp: find_Some_iff)
  moreover have "find (\<lambda>s. session_id s = sid) (map ?f (sessions w))
           = map_option ?f (find (\<lambda>s. session_id s = sid) (sessions w))"
    by (rule find_map_keeps) simp
  ultimately show ?thesis
    using assms by (simp add: logout_explicit)
qed

lemma logout_idempotent:
  "logout req sessionId (snd (logout req sessionId w)) = logout req sessionId w"
  by (auto simp: logout_def Let_def session_findFirst_id_after_revoke
        session_updateMany_revoke_idem split: option.splits)

text \<open>
  C7 (the session identified by the resolved id ends revoked). It does not when the id comes
  from the cookie: the owner filter of the update is taken from a lookup by the absent
  argument, which returns the first session of the table. Here that is Alice's, the cookie
  names Bob's session, and logout answers success with Bob's session still active.
\<close>

theorem logout_by_cookie_leaves_session_active:
  "logout (firefox_req\<lparr>cookie_session_id := Some ''s2''\<rparr>) None world_two_sessions
     = (Inr ''Logout successful'', world_two_sessions)
   \<and> find (\<lambda>s. session_id s = ''s2'') (sessions world_two_sessions) = Some bob_session
   \<and> revoked bob_session = False
   \<and> refreshTokenHashed bob_session = Some ''$argon2id$r2''"
  by (simp add: alice_def bob_def world0_def firefox_req_def alice_session_def bob_session_def
        world_two_sessions_def
        logout_def session_findFirst_id_def session_updateMany_revoke_def or_opt_def truthy_def
        Let_def)

lemma validate_body_Inr_iff:
  "validate_body x secret sr tok w = Inr u \<longleftrightarrow>
     (\<exists>k p uid. secret = Some k \<and> jwt_verifyAsync x tok k = Some p \<and> \<not> sr
        \<and> sub p = Some uid \<and> find (\<lambda>v. user_id v = uid) (users w) = Some u
        \<and> find (\<lambda>s. session_userId s = uid \<and> \<not> revoked s) (sessions w) \<noteq> None)"
  by (auto simp: validate_body_def dest: find_user_id split: option.splits if_splits)

lemma validate_Inr_iff:
  "validate x secret sr tok w = Inr u \<longleftrightarrow>
     (\<exists>k p uid. secret = Some k \<and> jwt_verifyAsync x tok k = Some p \<and> \<not> sr
        \<and> sub p = Some uid \<and> find (\<lambda>v. user_id v = uid) (users w) = Some u
        \<and> list_ex (\<lambda>s. session_userId s = uid \<and> \<not> revoked s) (sessions w))"
proof -
  have "validate x secret sr tok w = Inr u \<longleftrightarrow> validate_body x secret sr tok w = Inr u"
    by (simp add: validate_def split: sum.splits)
  then show ?thesis
    by (simp add: validate_body_Inr_iff find_None_list_ex)
qed

lemma validate_else_Unauthorized:
  "(\<exists>u. validate x secret sr tok w = Inr u)
     \<or> (\<exists>m. validate x secret sr tok w = Inl (UnauthorizedException m))"
proof (cases "validate_body x secret sr tok w")
  case (Inr u)
  then show ?thesis by (simp add: validate_def)
next
  case (Inl e)
  then show ?thesis by (cases e) (simp_all add: validate_def)
qed

text \<open>
  C5 (validate returns the user exactly when the token verifies, the user exists and one of
  the user's sessions is not revoked; anything else, a failing store included, is
  Unauthorized; so after logout of the user's only session validate fails). The three
  parts in this order.
\<close>

theorem validate_user_iff_active_session:
  "(validate x secret sr tok w = Inr u \<longleftrightarrow>
     (\<exists>k p uid. secret = Some k \<and> jwt_verifyAsync x tok k = Some p \<and> \<not> sr
        \<and> sub p = Some uid \<and> find (\<lambda>v. user_id v = uid) (users w) = Some u
        \<and> list_ex (\<lambda>s. session_userId s = uid \<and> \<not> revoked s) (sessions w)))
   \<and> ((\<exists>v. validate x secret sr tok w = Inr v)
        \<or> (\<exists>m. validate x secret sr tok w = Inl (UnauthorizedException m)))
   \<and> (secret = Some k \<and> jwt_verifyAsync x tok k = Some p \<and> sub p = Some uid
        \<and> find (\<lambda>s. session_id s = sid) (sessions w) = Some s \<and> sid \<noteq> []
        \<and> session_userId s = uid
        \<and> list_all (\<lambda>t. session_userId t = uid \<longrightarrow> session_id t = sid) (sessions w)
      \<longrightarrow> (\<exists>m. validate x secret sr tok (snd (logout req (Some sid) w))
                  = Inl (UnauthorizedException m)))"
proof (intro conjI impI)
  show "validate x secret sr tok w = Inr u \<longleftrightarrow>
     (\<exists>k p uid. secret = Some k \<and> jwt_verifyAsync x tok k = Some p \<and> \<not> sr
        \<and> sub p = Some uid \<and> find (\<lambda>v. user_id v = uid) (users w) = Some u
        \<and> list_ex (\<lambda>s. session_userId s = uid \<and> \<not> revoked s) (sessions w))"
    by (rule validate_Inr_iff)
next
  show "(\<exists>v. validate x secret sr tok w = Inr v)
        \<or> (\<exists>m. validate x secret sr tok w = Inl (UnauthorizedException m))"
    by (rule validate_else_Unauthorized)
next
  assume a: "secret = Some k \<and> jwt_verifyAsync x tok k = Some p \<and> sub p = Some uid
        \<and> find (\<lambda>s. session_id s = sid) (sessions w) = Some s \<and> sid \<noteq> []
        \<and> session_userId s = uid
        \<and> list_all (\<lambda>t. session_userId t = uid \<longrightarrow> session_id t = sid) (sessions w)"
  let ?w = "snd (logout req (Some sid) w)"
  have ss: "sessions ?w = map (\<lambda>t. if session_id t = sid \<and> session_userId t = uid
                     then t\<lparr>refreshTokenHashed := None, revoked := True\<rparr> else t) (sessions w)"
    using a logout_explicit [of sid w s req] by simp
  have none: "\<not> list_ex (\<lambda>t. session_userId t = uid \<and> \<not> revoked t) (sessions ?w)"
    unfolding ss using a by (intro no_active_after_revoke) simp
  have "\<not> (\<exists>v. validate x secret sr tok ?w = Inr v)"
    using a none by (auto simp: validate_Inr_iff)
  then show "\<exists>m. validate x secret sr tok ?w = Inl (UnauthorizedException m)"
    using validate_else_Unauthorized [of x secret sr tok ?w] by blast
qed

theorem validate_user_iff_active_session_witness:
  "validate sample_ext (Some ''secret'') False ''jwt:u1'' world_logged_in = Inr alice
   \<and> jwt_verifyAsync sample_ext ''jwt:u1'' ''secret'' = Some \<lparr>sub = Some ''u1''\<rparr>
   \<and> find (\<lambda>s. session_id s = ''s1'') (sessions world_logged_in) = Some alice_session
   \<and> session_userId alice_session = ''u1''
   \<and> list_all (\<lambda>t. session_userId t = ''u1'' \<longrightarrow> session_id t = ''s1'') (sessions world_logged_in)
   \<and> (\<exists>m. validate sample_ext (Some ''secret'') False ''jwt:u1''
              (snd (logout firefox_req (Some ''s1'') world_logged_in))
            = Inl (UnauthorizedException m))
   \<and> (\<exists>m. validate sample_ext (Some ''secret'') True ''jwt:u1'' world_logged_in
            = Inl (UnauthorizedException m))"
proof -
  have v: "validate sample_ext (Some ''secret'') False ''jwt:u1'' world_logged_in = Inr alice"
    by (simp add: sample_ext_def alice_def bob_def world0_def alice_session_def world_logged_in_def
        validate_def validate_body_def)
  have j: "jwt_verifyAsync sample_ext ''jwt:u1'' ''secret'' = Some \<lparr>sub = Some ''u1''\<rparr>"
    by (simp add: sample_ext_def alice_def bob_def world0_def alice_session_def world_logged_in_def)
  have f: "find (\<lambda>s. session_id s = ''s1'') (sessions world_logged_in) = Some alice_session"
    by (simp add: sample_ext_def alice_def bob_def world0_def alice_session_def world_logged_in_def)
  have o: "session_userId alice_session = ''u1''" by (simp add: sample_ext_def alice_def bob_def world0_def alice_session_def world_logged_in_def)
  have l: "list_all (\<lambda>t. session_userId t = ''u1'' \<longrightarrow> session_id t = ''s1'') (sessions world_logged_in)"
    by (simp add: sample_ext_def alice_def bob_def world0_def alice_session_def world_logged_in_def)
  have r: "\<not> (\<exists>u. validate sample_ext (Some ''secret'') True ''jwt:u1'' world_logged_in = Inr u)"
    by (simp add: sample_ext_def alice_def bob_def world0_def alice_session_def world_logged_in_def
        validate_def validate_body_def)
  note inst = validate_user_iff_active_session [of sample_ext "Some ''secret''" _ "''jwt:u1''" world_logged_in alice
                  "''secret''" "\<lparr>sub = Some ''u1''\<rparr>" "''u1''" "''s1''" alice_session firefox_req]
  have a: "\<exists>m. validate sample_ext (Some ''secret'') False ''jwt:u1''
              (snd (logout firefox_req (Some ''s1'') world_logged_in))
            = Inl (UnauthorizedException m)"
    using inst [of False] j f o l by simp
  have b: "\<exists>m. validate sample_ext (Some ''secret'') True ''jwt:u1'' world_logged_in
            = Inl (UnauthorizedException m)"
    using inst [of True] r by blast
  show ?thesis using v j f o l a b by simp
qed

section \<open>Registration and password change\<close>

text \<open>
  C9 (registration fails with Conflict for an email that is already a primary email, and
  otherwise stores and returns the new user, hashed password included; a second
  registration of the same email then fails). The generated id and profile identifier are
  taken to be unused, as the store requires.
\<close>

theorem registerUser_conflict_or_create:
  "(findPrimaryUserByEmail (reg_email body) (users w) = Some u
      \<longrightarrow> registerUser x newId snowflake body w
            = (Inl (ConflictException ''This email has been registered''), w))
   \<and> (findPrimaryUserByEmail (reg_email body) (users w) = None
        \<and> \<not> list_ex (\<lambda>v. user_id v = newId \<or> profileId v = snowflake) (users w)
      \<longrightarrow> (\<exists>newUser.
             registerUser x newId snowflake body w = (Inr newUser, w\<lparr>users := users w @ [newUser]\<rparr>)
           \<and> hashedPassword newUser = hashing x (reg_password body)
           \<and> profileId newUser = snowflake
           \<and> primaryEmail newUser = reg_email body
           \<and> registerUser x newId' snowflake' body (w\<lparr>users := users w @ [newUser]\<rparr>)
               = (Inl (ConflictException ''This email has been registered''),
                  w\<lparr>users := users w @ [newUser]\<rparr>)))"
  by (auto simp: registerUser_def user_create_def Let_def findPrimaryUserByEmail_def
        find_snoc_fresh)

theorem registerUser_conflict_or_create_witness:
  "findPrimaryUserByEmail (reg_email carol_registration) (users world0) = None
   \<and> \<not> list_ex (\<lambda>v. user_id v = ''u3'' \<or> profileId v = ''p3'') (users world0)
   \<and> registerUser sample_ext ''u3'' ''p3'' carol_registration world0
       = (Inr carol, world0\<lparr>users := [alice, bob, carol]\<rparr>)
   \<and> hashedPassword carol = ''$argon2id$pw3''
   \<and> findPrimaryUserByEmail (reg_email carol_registration) [alice, bob, carol] = Some carol
   \<and> registerUser sample_ext ''u4'' ''p4'' carol_registration (world0\<lparr>users := [alice, bob, carol]\<rparr>)
       = (Inl (ConflictException ''This email has been registered''),
          world0\<lparr>users := [alice, bob, carol]\<rparr>)"
proof -
  have n: "findPrimaryUserByEmail (reg_email carol_registration) (users world0) = None"
    by (simp add: sample_ext_def alice_def bob_def world0_def carol_registration_def carol_def
        registerUser_def user_create_def findPrimaryUserByEmail_def hashing_def Let_def)
  have i: "\<not> list_ex (\<lambda>v. user_id v = ''u3'' \<or> profileId v = ''p3'') (users world0)"
    by (simp add: sample_ext_def alice_def bob_def world0_def carol_registration_def carol_def)
  have r: "registerUser sample_ext ''u3'' ''p3'' carol_registration world0
       = (Inr carol, world0\<lparr>users := [alice, bob, carol]\<rparr>)"
    by (simp add: sample_ext_def alice_def bob_def world0_def carol_registration_def carol_def
        registerUser_def user_create_def findPrimaryUserByEmail_def hashing_def Let_def)
  have h: "hashedPassword carol = ''$argon2id$pw3''" by (simp add: sample_ext_def alice_def bob_def world0_def carol_registration_def carol_def)
  have f: "findPrimaryUserByEmail (reg_email carol_registration) [alice, bob, carol] = Some carol"
    by (simp add: sample_ext_def alice_def bob_def world0_def carol_registration_def carol_def
        registerUser_def user_create_def findPrimaryUserByEmail_def hashing_def Let_def)
  have u: "users (world0\<lparr>users := [alice, bob, carol]\<rparr>) = [alice, bob, carol]" by simp
  have "registerUser sample_ext ''u4'' ''p4'' carol_registration (world0\<lparr>users := [alice, bob, carol]\<rparr>)
       = (Inl (ConflictException ''This email has been registered''),
          world0\<lparr>users := [alice, bob, carol]\<rparr>)"
    using f u registerUser_conflict_or_create [of carol_registration "world0\<lparr>users := [alice, bob, carol]\<rparr>" carol
                    sample_ext "''u4''" "''p4''"]
    by simp
  then show ?thesis using n i r h f by simp
qed

text \<open>
  C10 (every successful password change hands the old password, in plain text, to Redis
  under the user's id with an expiry of 30 days). The theorem gives the whole resulting
  state: the Redis call with 2592000 seconds, the new hash and the notification mail.
\<close>

theorem changePassword_hands_old_password_to_redis:
  assumes "req_user_id req = Some uid" and "uid \<noteq> []"
      and "find (\<lambda>u. user_id u = uid) (users w) = Some u"
      and "argon2_verify x (hashedPassword u) (dto_oldPassword data)"
  shows "changePassword x data req w
           = (Inr (UserWithoutPassword.truncate u),
              w\<lparr>redis_sets := redis_sets w @ [(uid, dto_oldPassword data, 60 * 60 * 24 * 30)],
                users := set_hashedPassword uid (hashing x (dto_newPassword data)) (users w),
                outbox := outbox w @ [NotificationResetPassword (primaryEmail u)]\<rparr>)"
proof -
  have "user_id u = uid" using assms(3) by (auto simp: find_Some_iff)
  then show ?thesis
    using assms
    by (simp add: changePassword_def truthy_def or_else_def redis_set_def MAX_TIME_SAVE_def
          Let_def find_set_hashedPassword UserWithoutPassword.defs)
qed

theorem changePassword_hands_old_password_to_redis_witness:
  "req_user_id (firefox_req\<lparr>req_user_id := Some ''u1''\<rparr>) = Some ''u1''
   \<and> find (\<lambda>u. user_id u = ''u1'') (users world0) = Some alice
   \<and> argon2_verify sample_ext (hashedPassword alice)
        (dto_oldPassword \<lparr>dto_oldPassword = ''pw1'', dto_newPassword = ''pw9''\<rparr>)
   \<and> redis_sets (snd (changePassword sample_ext \<lparr>dto_oldPassword = ''pw1'', dto_newPassword = ''pw9''\<rparr>
                     (firefox_req\<lparr>req_user_id := Some ''u1''\<rparr>) world0))
       = [(''u1'', ''pw1'', 2592000)]
   \<and> users (snd (changePassword sample_ext \<lparr>dto_oldPassword = ''pw1'', dto_newPassword = ''pw9''\<rparr>
                     (firefox_req\<lparr>req_user_id := Some ''u1''\<rparr>) world0))
       = [alice\<lparr>hashedPassword := ''$argon2id$pw9''\<rparr>, bob]"
proof -
  have a: "req_user_id (firefox_req\<lparr>req_user_id := Some ''u1''\<rparr>) = Some ''u1''" by simp
  have b: "''u1'' \<noteq> []" by simp
  have c: "find (\<lambda>u. user_id u = ''u1'') (users world0) = Some alice"
    by (simp add: sample_ext_def alice_def bob_def world0_def firefox_req_def)
  have d: "argon2_verify sample_ext (hashedPassword alice)
        (dto_oldPassword \<lparr>dto_oldPassword = ''pw1'', dto_newPassword = ''pw9''\<rparr>)"
    by (simp add: sample_ext_def alice_def bob_def world0_def firefox_req_def)
  have e: "set_hashedPassword ''u1'' (hashing sample_ext ''pw9'') (users world0)
             = [alice\<lparr>hashedPassword := ''$argon2id$pw9''\<rparr>, bob]"
    by (simp add: sample_ext_def alice_def bob_def world0_def firefox_req_def
        set_hashedPassword_def hashing_def)
  have f: "redis_sets world0 = []" by (simp add: world0_def)
  show ?thesis
    using a c d e f changePassword_hands_old_password_to_redis [OF a b c d] by simp
qed

text \<open>
  A password change that fails has made no Redis call.
\<close>

lemma changePassword_failure_keeps_redis:
  "fst (changePassword x data req w) = Inl e
     \<Longrightarrow> redis_sets (snd (changePassword x data req w)) = redis_sets w"
  by (auto simp: changePassword_def Let_def find_set_hashedPassword redis_set_def
        split: if_splits option.splits)

end
